theory Spec2Isabelle
  imports Main
begin

section \<open>The class-based shopping cart aggregate (src/unnamed/part\_000)\<close>

subsection \<open>Data model\<close>

text \<open>
  \<^verbatim>\<open>Date\<close> values are kept as their time value (milliseconds since the epoch).
  \<^verbatim>\<open>PricedProductItem\<close>, \<^verbatim>\<open>ShoppingCartStatus\<close> and the event types are imported by the
  source from a module that is not part of it; their shape is fixed by how the source reads
  and builds them. The JavaScript numbers \<^verbatim>\<open>quantity\<close> and \<^verbatim>\<open>unitPrice\<close> are taken to hold
  integers (of either sign: nothing in the source restricts them).
\<close>

type_synonym Date = int

record PricedProductItem =
  productId :: string
  quantity :: int
  unitPrice :: int

datatype ShoppingCartStatus = Pending | Confirmed | Canceled

text \<open>
  The five event types of the union \<^verbatim>\<open>ShoppingCartEvent\<close>, with the fields of \<^verbatim>\<open>data\<close> in
  the order the source writes them. \<^verbatim>\<open>shoppingCartId\<close> of the four later events is copied from
  \<^verbatim>\<open>this._id\<close>, which is \<^verbatim>\<open>undefined\<close> until an opened event has been folded, hence the option.
  \<open>UnknownEvent t\<close> stands for a runtime value whose \<^verbatim>\<open>type\<close> tag \<open>t\<close> is none of the five: the
  static type excludes it, the \<^verbatim>\<open>default\<close> branch of the \<^verbatim>\<open>switch\<close> receives it.
\<close>

datatype ShoppingCartEvent =
    ShoppingCartOpened string string Date
  | ProductItemAddedToShoppingCart PricedProductItem "string option"
  | ProductItemRemovedFromShoppingCart PricedProductItem "string option"
  | ShoppingCartConfirmed "string option" Date
  | ShoppingCartCanceled "string option" Date
  | UnknownEvent string

datatype ShoppingCartErrors =
    CART_IS_ALREADY_CLOSED
  | PRODUCT_ITEM_NOT_FOUND
  | CART_IS_EMPTY
  | UNKNOWN_EVENT_TYPE
  | UNKNOWN_COMMAND_TYPE

text \<open>
  The private fields of the class \<^verbatim>\<open>ShoppingCart\<close>, named as its getters name them
  (\<^verbatim>\<open>_id\<close> is \<open>cartId\<close>). A field that can hold \<^verbatim>\<open>undefined\<close> is an option.
\<close>

record ShoppingCart =
  cartId :: "string option"
  clientId :: "string option"
  status :: "ShoppingCartStatus option"
  openedAt :: "Date option"
  productItems :: "PricedProductItem list"
  confirmedAt :: "Date option"
  canceledAt :: "Date option"

text \<open>
  \<^verbatim>\<open>ShoppingCart.default\<close>: every argument is \<^verbatim>\<open>undefined\<close>, so the default value \<^verbatim>\<open>[]\<close> of the
  parameter \<^verbatim>\<open>_productItems\<close> applies.
\<close>

definition ShoppingCart_default :: ShoppingCart where
  "ShoppingCart_default =
     \<lparr>cartId = None, clientId = None, status = None, openedAt = None,
      productItems = [], confirmedAt = None, canceledAt = None\<rparr>"

subsection \<open>Array helpers\<close>

text \<open>
  \<^verbatim>\<open>Array.prototype.find\<close> returns the first element that satisfies the predicate. The source
  then mutates that object, or looks its position up again with \<^verbatim>\<open>indexOf\<close>; every element of
  \<^verbatim>\<open>_productItems\<close> is an object of its own (\<^verbatim>\<open>push({ ...productItem })\<close> copies), so the object
  is identified by the position of the first match.
\<close>

fun findIndex :: "('a \<Rightarrow> bool) \<Rightarrow> 'a list \<Rightarrow> nat option" where
  "findIndex P [] = None"
| "findIndex P (x # xs) =
     (if P x then Some 0 else map_option Suc (findIndex P xs))"

text \<open>\<^verbatim>\<open>splice(i, 1)\<close>: the array without its element at position \<open>i\<close>.\<close>

definition splice1 :: "nat \<Rightarrow> 'a list \<Rightarrow> 'a list" where
  "splice1 i xs = take i xs @ drop (Suc i) xs"

text \<open>The predicate both \<^verbatim>\<open>find\<close> calls of \<^verbatim>\<open>evolve\<close> use: same product and same unit price.\<close>

definition sameLine :: "PricedProductItem \<Rightarrow> PricedProductItem \<Rightarrow> bool" where
  "sameLine item pi \<longleftrightarrow> productId pi = productId item \<and> unitPrice pi = unitPrice item"

subsection \<open>Arithmetic of numbers\<close>

text \<open>
  A JavaScript number is a double: it holds every integer up to \<open>2\<^sup>5\<^sup>3\<close> in magnitude, and
  beyond that only the integers whose binary form has at most 53 significant digits. The
  sum or difference of two numbers is the number nearest to the exact result, and of two
  equally near ones the one whose 53-digit significand is even. \<open>roundToNumber\<close> is that
  rounding of an exact integer result (of a finite one: the model holds no infinity, which
  the code reaches from \<open>2\<^sup>1\<^sup>0\<^sup>2\<^sup>4\<close> on); \<open>bitLength\<close> is the number of binary digits.
\<close>

fun bitLength :: "nat \<Rightarrow> nat" where
  "bitLength n = (if n = 0 then 0 else Suc (bitLength (n div 2)))"

definition roundToNumber :: "int \<Rightarrow> int" where
  "roundToNumber n =
     (if \<bar>n\<bar> \<le> 2 ^ 53 then n
      else
        (let a = nat \<bar>n\<bar>;
             u = 2 ^ (bitLength a - 53);
             q = a div u;
             r = a mod u;
             m = (if u < 2 * r \<or> (2 * r = u \<and> odd q) then q + 1 else q)
         in sgn n * int (m * u)))"

definition numberAdd :: "int \<Rightarrow> int \<Rightarrow> int" where
  "numberAdd a b = roundToNumber (a + b)"

definition numberSub :: "int \<Rightarrow> int \<Rightarrow> int" where
  "numberSub a b = roundToNumber (a - b)"

subsection \<open>The fold step\<close>

fun evolve :: "ShoppingCart \<Rightarrow> ShoppingCartEvent \<Rightarrow> ShoppingCartErrors + ShoppingCart" where
  "evolve state (ShoppingCartOpened shoppingCartId client at) =
     Inr (state\<lparr>cartId := Some shoppingCartId, clientId := Some client,
                status := Some Pending, openedAt := Some at, productItems := []\<rparr>)"
| "evolve state (ProductItemAddedToShoppingCart productItem shoppingCartId) =
     (case findIndex (sameLine productItem) (productItems state) of
        Some i \<Rightarrow>
          Inr (state\<lparr>productItems :=
            (productItems state)[i := (productItems state ! i)
               \<lparr>quantity := numberAdd (quantity (productItems state ! i))
                              (quantity productItem)\<rparr>]\<rparr>)
      | None \<Rightarrow> Inr (state\<lparr>productItems := productItems state @ [productItem]\<rparr>))"
| "evolve state (ProductItemRemovedFromShoppingCart productItem shoppingCartId) =
     (case findIndex (sameLine productItem) (productItems state) of
        None \<Rightarrow> Inr state
      | Some i \<Rightarrow>
          (let q = numberSub (quantity (productItems state ! i)) (quantity productItem);
               items = (productItems state)[i := (productItems state ! i)\<lparr>quantity := q\<rparr>]
           in if q \<le> 0 then Inr (state\<lparr>productItems := splice1 i items\<rparr>)
              else Inr (state\<lparr>productItems := items\<rparr>)))"
| "evolve state (ShoppingCartConfirmed shoppingCartId at) =
     Inr (state\<lparr>status := Some Confirmed, confirmedAt := Some at\<rparr>)"
| "evolve state (ShoppingCartCanceled shoppingCartId at) =
     Inr (state\<lparr>status := Some Canceled, canceledAt := Some at\<rparr>)"
| "evolve state (UnknownEvent t) = Inl UNKNOWN_EVENT_TYPE"

text \<open>
  \<^verbatim>\<open>events.reduce(f, init)\<close> where \<open>f\<close> may throw: the events are folded from the left, and the
  first exception ends the fold.
\<close>

fun reduce :: "('s \<Rightarrow> 'e \<Rightarrow> 'x + 's) \<Rightarrow> 's \<Rightarrow> 'e list \<Rightarrow> 'x + 's" where
  "reduce f s [] = Inr s"
| "reduce f s (e # es) = (case f s e of Inl x \<Rightarrow> Inl x | Inr s' \<Rightarrow> reduce f s' es)"

subsection \<open>Commands of the aggregate\<close>

text \<open>A method that throws returns \<open>Inl\<close> of the error code it throws.\<close>

definition assertIsPending :: "ShoppingCart \<Rightarrow> ShoppingCartErrors + unit" where
  "assertIsPending cart =
     (if status cart \<noteq> Some Pending then Inl CART_IS_ALREADY_CLOSED else Inr ())"

text \<open>
  \<^verbatim>\<open>find(...)?.quantity ?? 0\<close>: the quantity of the first line with the same product and unit
  price, or 0 when there is none. (The source compares the prices with \<^verbatim>\<open>==\<close> here; on two
  numbers it is \<^verbatim>\<open>===\<close>.)
\<close>

definition currentQuantity :: "ShoppingCart \<Rightarrow> PricedProductItem \<Rightarrow> int" where
  "currentQuantity cart item =
     (case List.find (\<lambda>p. productId p = productId item \<and> unitPrice p = unitPrice item)
             (productItems cart) of
        Some p \<Rightarrow> quantity p
      | None \<Rightarrow> 0)"

definition assertProductItemExists ::
  "ShoppingCart \<Rightarrow> PricedProductItem \<Rightarrow> ShoppingCartErrors + unit" where
  "assertProductItemExists cart item =
     (if currentQuantity cart item < quantity item then Inl PRODUCT_ITEM_NOT_FOUND else Inr ())"

definition assertIsNotEmpty :: "ShoppingCart \<Rightarrow> ShoppingCartErrors + unit" where
  "assertIsNotEmpty cart =
     (if length (productItems cart) = 0 then Inl CART_IS_EMPTY else Inr ())"

definition open_cart :: "ShoppingCart \<Rightarrow> string \<Rightarrow> string \<Rightarrow> Date \<Rightarrow> ShoppingCartEvent" where
  "open_cart cart shoppingCartId client now = ShoppingCartOpened shoppingCartId client now"

definition addProductItem ::
  "ShoppingCart \<Rightarrow> PricedProductItem \<Rightarrow> ShoppingCartErrors + ShoppingCartEvent" where
  "addProductItem cart productItem =
     (case assertIsPending cart of
        Inl e \<Rightarrow> Inl e
      | Inr _ \<Rightarrow> Inr (ProductItemAddedToShoppingCart productItem (cartId cart)))"

definition removeProductItem ::
  "ShoppingCart \<Rightarrow> PricedProductItem \<Rightarrow> ShoppingCartErrors + ShoppingCartEvent" where
  "removeProductItem cart productItem =
     (case assertIsPending cart of
        Inl e \<Rightarrow> Inl e
      | Inr _ \<Rightarrow>
          (case assertProductItemExists cart productItem of
             Inl e \<Rightarrow> Inl e
           | Inr _ \<Rightarrow> Inr (ProductItemRemovedFromShoppingCart productItem (cartId cart))))"

definition confirm :: "ShoppingCart \<Rightarrow> Date \<Rightarrow> ShoppingCartErrors + ShoppingCartEvent" where
  "confirm cart now =
     (case assertIsPending cart of
        Inl e \<Rightarrow> Inl e
      | Inr _ \<Rightarrow>
          (case assertIsNotEmpty cart of
             Inl e \<Rightarrow> Inl e
           | Inr _ \<Rightarrow> Inr (ShoppingCartConfirmed (cartId cart) now)))"

definition cancel :: "ShoppingCart \<Rightarrow> Date \<Rightarrow> ShoppingCartErrors + ShoppingCartEvent" where
  "cancel cart now =
     (case assertIsPending cart of
        Inl e \<Rightarrow> Inl e
      | Inr _ \<Rightarrow> Inr (ShoppingCartCanceled (cartId cart) now))"

subsection \<open>Repository and application service\<close>

text \<open>
  The event store is a collaborator the source only calls: it is a parameter here, two
  functions over a store state \<open>'s\<close> of its own. \<^verbatim>\<open>readStream\<close> returns an array (the source
  calls \<^verbatim>\<open>reduce\<close> on the result at once), \<^verbatim>\<open>appendToStream\<close> changes the store.
\<close>

record ('s, 'e) EventStore =
  readStream :: "'s \<Rightarrow> string \<Rightarrow> 'e list"
  appendToStream :: "string \<Rightarrow> 'e list \<Rightarrow> 's \<Rightarrow> 's"

text \<open>The interface \<^verbatim>\<open>Repository\<close>: \<^verbatim>\<open>find\<close> and \<^verbatim>\<open>store\<close>.\<close>

record ('s, 'x, 'entity, 'e) Repository =
  find_entity :: "string \<Rightarrow> 's \<Rightarrow> 'x + 'entity"
  store_events :: "string \<Rightarrow> 'e list \<Rightarrow> 's \<Rightarrow> 's"

text \<open>
  The class \<^verbatim>\<open>EventStoreRepository\<close>. \<^verbatim>\<open>getInitialState()\<close> builds a new entity on every call:
  it is the value \<open>getInitialState\<close>.
\<close>

definition EventStoreRepository_find ::
  "('s, 'e) EventStore \<Rightarrow> 'entity \<Rightarrow> ('entity \<Rightarrow> 'e \<Rightarrow> 'x + 'entity)
    \<Rightarrow> string \<Rightarrow> 's \<Rightarrow> 'x + 'entity" where
  "EventStoreRepository_find eventStore getInitialState evolve_fn entityId st =
     (let events = readStream eventStore st entityId
      in reduce evolve_fn getInitialState events)"

definition EventStoreRepository_store ::
  "('s, 'e) EventStore \<Rightarrow> string \<Rightarrow> 'e list \<Rightarrow> 's \<Rightarrow> 's" where
  "EventStoreRepository_store eventStore entityId events st =
     (if length events = 0 then st else appendToStream eventStore entityId events st)"

definition EventStoreRepository ::
  "('s, 'e) EventStore \<Rightarrow> 'entity \<Rightarrow> ('entity \<Rightarrow> 'e \<Rightarrow> 'x + 'entity)
    \<Rightarrow> ('s, 'x, 'entity, 'e) Repository" where
  "EventStoreRepository eventStore getInitialState evolve_fn =
     \<lparr>find_entity = EventStoreRepository_find eventStore getInitialState evolve_fn,
      store_events = EventStoreRepository_store eventStore\<rparr>"

text \<open>
  \<^verbatim>\<open>ApplicationService.on\<close>. A handler returns one event or an array of events; an exception of
  \<^verbatim>\<open>find\<close> or of the handler leaves \<^verbatim>\<open>on\<close> before \<^verbatim>\<open>store\<close> is reached, so the store state is
  the one \<^verbatim>\<open>on\<close> started with.
\<close>

datatype 'e Handled = OneEvent 'e | ManyEvents "'e list"

fun toArray :: "'e Handled \<Rightarrow> 'e list" where
  "toArray (ManyEvents es) = es"
| "toArray (OneEvent e) = [e]"

definition on ::
  "('s, 'x, 'entity, 'e) Repository \<Rightarrow> string \<Rightarrow> ('entity \<Rightarrow> 'x + 'e Handled)
    \<Rightarrow> 's \<Rightarrow> ('x + unit) \<times> 's" where
  "on repository entityId handle st =
     (case find_entity repository entityId st of
        Inl x \<Rightarrow> (Inl x, st)
      | Inr aggregate \<Rightarrow>
          (case handle aggregate of
             Inl x \<Rightarrow> (Inl x, st)
           | Inr result \<Rightarrow> (Inr (), store_events repository entityId (toArray result) st)))"

text \<open>The class \<^verbatim>\<open>ShoppingCartService\<close>; each method destructures its command.\<close>

type_synonym 's CartRepository = "('s, ShoppingCartErrors, ShoppingCart, ShoppingCartEvent) Repository"

definition ShoppingCartService_open ::
  "'s CartRepository \<Rightarrow> string \<Rightarrow> string \<Rightarrow> Date \<Rightarrow> 's \<Rightarrow> (ShoppingCartErrors + unit) \<times> 's" where
  "ShoppingCartService_open repository shoppingCartId client now =
     on repository shoppingCartId
       (\<lambda>shoppingCart. Inr (OneEvent (open_cart shoppingCart shoppingCartId client now)))"

definition ShoppingCartService_addProductItem ::
  "'s CartRepository \<Rightarrow> string \<Rightarrow> PricedProductItem \<Rightarrow> 's \<Rightarrow> (ShoppingCartErrors + unit) \<times> 's" where
  "ShoppingCartService_addProductItem repository shoppingCartId productItem =
     on repository shoppingCartId
       (\<lambda>shoppingCart. map_sum (\<lambda>e. e) OneEvent (addProductItem shoppingCart productItem))"

definition ShoppingCartService_removeProductItem ::
  "'s CartRepository \<Rightarrow> string \<Rightarrow> PricedProductItem \<Rightarrow> 's \<Rightarrow> (ShoppingCartErrors + unit) \<times> 's" where
  "ShoppingCartService_removeProductItem repository shoppingCartId productItem =
     on repository shoppingCartId
       (\<lambda>shoppingCart. map_sum (\<lambda>e. e) OneEvent (removeProductItem shoppingCart productItem))"

definition ShoppingCartService_confirm ::
  "'s CartRepository \<Rightarrow> string \<Rightarrow> Date \<Rightarrow> 's \<Rightarrow> (ShoppingCartErrors + unit) \<times> 's" where
  "ShoppingCartService_confirm repository shoppingCartId now =
     on repository shoppingCartId
       (\<lambda>shoppingCart. map_sum (\<lambda>e. e) OneEvent (confirm shoppingCart now))"

definition ShoppingCartService_cancel ::
  "'s CartRepository \<Rightarrow> string \<Rightarrow> Date \<Rightarrow> 's \<Rightarrow> (ShoppingCartErrors + unit) \<times> 's" where
  "ShoppingCartService_cancel repository shoppingCartId now =
     on repository shoppingCartId
       (\<lambda>shoppingCart. map_sum (\<lambda>e. e) OneEvent (cancel shoppingCart now))"

text \<open>
  Modelled from the spec: the event store itself (\<^verbatim>\<open>EventStore\<close> is imported by the source
  from a module that is not part of it). A stream is an append-only ordered sequence of
  events under a string key. Reading a stream that was never appended to gives no events:
  \<^verbatim>\<open>ShoppingCartService.open\<close> reads the stream of the cart it is about to create. The store
  is used to run the repository and the service on concrete streams only.
\<close>

definition memoryStore :: "(string \<Rightarrow> 'e list, 'e) EventStore" where
  "memoryStore =
     \<lparr>readStream = (\<lambda>st entityId. st entityId),
      appendToStream = (\<lambda>entityId events st. st(entityId := st entityId @ events))\<rparr>"

definition cartRepository :: "(string \<Rightarrow> ShoppingCartEvent list) CartRepository" where
  "cartRepository = EventStoreRepository memoryStore ShoppingCart_default evolve"

section \<open>Weak ETags (src/samples/from\_crud\_to\_eventsourcing/src/core/http.ts)\<close>

subsection \<open>The regular expression\<close>

text \<open>
  \<^verbatim>\<open>WeakETagRegex = /W\/"(\d+.*)"/\<close> is a sequence of single-character atoms, each matched
  once, one or more times or zero or more times, with one capture group around the fourth
  and fifth atom. A string is a list of 8-bit characters (a header value read by Node is
  Latin-1 text), among which the line terminators that \<^verbatim>\<open>.\<close> refuses are line feed and
  carriage return; \<^verbatim>\<open>\d\<close> is an ASCII digit.
\<close>

datatype CharClass = Lit char | Digit | Dot

datatype Quantifier = Once | OneOrMore | ZeroOrMore

type_synonym Atom = "CharClass \<times> Quantifier"

record Regex =
  atoms :: "Atom list"
  group1 :: "nat \<times> nat"

definition isDigit :: "char \<Rightarrow> bool" where
  "isDigit c \<longleftrightarrow> c \<in> set ''0123456789''"

definition isLineTerminator :: "char \<Rightarrow> bool" where
  "isLineTerminator c \<longleftrightarrow> c = CHR 0x0A \<or> c = CHR 0x0D"

fun classMatches :: "CharClass \<Rightarrow> char \<Rightarrow> bool" where
  "classMatches (Lit a) c \<longleftrightarrow> c = a"
| "classMatches Digit c \<longleftrightarrow> isDigit c"
| "classMatches Dot c \<longleftrightarrow> \<not> isLineTerminator c"

text \<open>
  The backtracking matcher of the language, at the start of a string: a quantified atom is
  greedy (it takes one more character first, and gives it back when the rest of the pattern
  fails after it). The result is the number of characters each atom took in the first match
  found in that order, \<open>None\<close> when there is none.
\<close>

fun longer :: "nat list \<Rightarrow> nat list" where
  "longer [] = []"
| "longer (n # ns) = Suc n # ns"

fun matchAtoms :: "Atom list \<Rightarrow> string \<Rightarrow> nat list option" where
  "matchAtoms [] s = Some []"
| "matchAtoms ((c, Once) # as) [] = None"
| "matchAtoms ((c, Once) # as) (x # xs) =
     (if classMatches c x then map_option (Cons 1) (matchAtoms as xs) else None)"
| "matchAtoms ((c, OneOrMore) # as) [] = None"
| "matchAtoms ((c, OneOrMore) # as) (x # xs) =
     (if classMatches c x then map_option longer (matchAtoms ((c, ZeroOrMore) # as) xs)
      else None)"
| "matchAtoms ((c, ZeroOrMore) # as) [] = map_option (Cons 0) (matchAtoms as [])"
| "matchAtoms ((c, ZeroOrMore) # as) (x # xs) =
     (if classMatches c x then
        (case matchAtoms ((c, ZeroOrMore) # as) xs of
           Some ns \<Rightarrow> Some (longer ns)
         | None \<Rightarrow> map_option (Cons 0) (matchAtoms as (x # xs)))
      else map_option (Cons 0) (matchAtoms as (x # xs)))"

text \<open>
  \<^verbatim>\<open>RegExp.prototype.exec\<close> of a pattern without flags: the match is tried at every position
  from the left, and the first position where it succeeds gives the result array: the whole
  match, then the text of group 1.
\<close>

fun execFrom :: "Atom list \<Rightarrow> string \<Rightarrow> (string \<times> nat list) option" where
  "execFrom as [] = map_option (Pair []) (matchAtoms as [])"
| "execFrom as (x # xs) =
     (case matchAtoms as (x # xs) of
        Some ns \<Rightarrow> Some (x # xs, ns)
      | None \<Rightarrow> execFrom as xs)"

definition capture :: "nat list \<Rightarrow> nat \<times> nat \<Rightarrow> string \<Rightarrow> string" where
  "capture ns g s =
     take (sum_list (take (snd g) ns) - sum_list (take (fst g) ns))
       (drop (sum_list (take (fst g) ns)) s)"

definition RegExp_exec :: "Regex \<Rightarrow> string \<Rightarrow> string list option" where
  "RegExp_exec re s =
     (case execFrom (atoms re) s of
        None \<Rightarrow> None
      | Some (u, ns) \<Rightarrow> Some [take (sum_list ns) u, capture ns (group1 re) u])"

definition WeakETagRegex :: Regex where
  "WeakETagRegex =
     \<lparr>atoms = [(Lit CHR ''W'', Once), (Lit CHR ''/'', Once), (Lit CHR 0x22, Once),
               (Digit, OneOrMore), (Dot, ZeroOrMore), (Lit CHR 0x22, Once)],
      group1 = (3, 5)\<rparr>"

subsection \<open>Encoding and decoding\<close>

datatype ETagErrors = WRONG_WEAK_ETAG_FORMAT | MISSING_HEADER

definition isWeakETag :: "string \<Rightarrow> bool" where
  "isWeakETag etag \<longleftrightarrow> RegExp_exec WeakETagRegex etag \<noteq> None"

definition getWeakETagValue :: "string \<Rightarrow> ETagErrors + string" where
  "getWeakETagValue etag =
     (case RegExp_exec WeakETagRegex etag of
        None \<Rightarrow> Inl WRONG_WEAK_ETAG_FORMAT
      | Some weak \<Rightarrow>
          if length weak = 0 then Inl WRONG_WEAK_ETAG_FORMAT else Inr (weak ! 1))"







section \<open>The shopping cart fold of the same sample (http.ts, second part)\<close>

text \<open>
  The callback that \<^verbatim>\<open>getShoppingCart\<close> hands to \<^verbatim>\<open>StreamAggregator\<close>. The names of this part
  that the class-based aggregate also uses carry the suffix \<open>_crud\<close>. \<^verbatim>\<open>User\<close>, the product
  item type and the functions \<^verbatim>\<open>addProductItem\<close> and \<^verbatim>\<open>removeProductItem\<close> of \<^verbatim>\<open>./productItem\<close>
  are not part of the source: the types are type parameters and the two functions are
  parameters of the callback. \<open>UnknownEvent_crud\<close> is, as above, a runtime value of another
  type tag, which the \<^verbatim>\<open>default\<close> branch receives. \<^verbatim>\<open>console.error\<close> writes a line to the
  console: the callback returns its result together with the lines it logged. The field
  \<open>openedAt_crud\<close> keeps the string that the \<^verbatim>\<open>Date\<close> of the source is built from, and the
  state before the first event is left to the caller (the aggregator is not part of the
  source).
\<close>

datatype ShoppingCartStatus_crud = Opened | Confirmed_crud | Cancelled | Closed

record AdditionalInfo =
  content :: "string option"
  line1 :: "string option"
  line2 :: "string option"

datatype ('item, 'user) ShoppingCartEvent_crud =
    ShoppingCartOpened_crud string string
  | ProductItemAddedToShoppingCart_crud string 'item string
  | ProductItemRemovedFromShoppingCart_crud string 'item string
  | ShoppingCartConfirmed_crud string 'user AdditionalInfo string
  | UnknownEvent_crud string

record 'item ShoppingCart_crud =
  id_crud :: string
  openedAt_crud :: "string option"
  productItems_crud :: "'item list"
  status_crud :: ShoppingCartStatus_crud

fun getShoppingCart_when ::
  "('item list \<Rightarrow> 'item \<Rightarrow> 'item list) \<Rightarrow> ('item list \<Rightarrow> 'item \<Rightarrow> 'item list)
    \<Rightarrow> 'item ShoppingCart_crud \<Rightarrow> ('item, 'user) ShoppingCartEvent_crud
    \<Rightarrow> 'item ShoppingCart_crud \<times> string list" where
  "getShoppingCart_when addItem removeItem currentState (ShoppingCartOpened_crud shoppingCartId at) =
     (\<lparr>id_crud = shoppingCartId, openedAt_crud = Some at, productItems_crud = [],
       status_crud = Opened\<rparr>, [])"
| "getShoppingCart_when addItem removeItem currentState
       (ProductItemAddedToShoppingCart_crud shoppingCartId productItem at) =
     (currentState\<lparr>productItems_crud := addItem (productItems_crud currentState) productItem\<rparr>, [])"
| "getShoppingCart_when addItem removeItem currentState
       (ProductItemRemovedFromShoppingCart_crud shoppingCartId productItem at) =
     (currentState\<lparr>productItems_crud := removeItem (productItems_crud currentState) productItem\<rparr>, [])"
| "getShoppingCart_when addItem removeItem currentState
       (ShoppingCartConfirmed_crud shoppingCartId user info at) =
     (currentState\<lparr>status_crud := Confirmed_crud\<rparr>, [])"
| "getShoppingCart_when addItem removeItem currentState (UnknownEvent_crud t) =
     (currentState, [''Unknown event type '' @ t])"

section \<open>Specification predicates\<close>

text \<open>
  Predicates the properties below are stated with; none of them is part of the program.
  \<open>linesPositive\<close>: every line of the cart has a strictly positive quantity.
  \<open>addsPositive\<close>: the event is not the addition of a quantity that is zero or negative.
\<close>

definition linesPositive :: "ShoppingCart \<Rightarrow> bool" where
  "linesPositive cart \<longleftrightarrow> (\<forall>p\<in>set (productItems cart). 0 < quantity p)"

fun addsPositive :: "ShoppingCartEvent \<Rightarrow> bool" where
  "addsPositive (ProductItemAddedToShoppingCart item sid) \<longleftrightarrow> 0 < quantity item"
| "addsPositive e \<longleftrightarrow> True"

text \<open>
  \<open>closes s\<close>: \<open>s\<close> has a double quote that no line terminator precedes.
  \<open>wellFormedAt s\<close>: \<open>s\<close> starts with \<^verbatim>\<open>W/"\<close> and a digit, and the rest closes; these are
  the strings at whose start the pattern of \<open>WeakETagRegex\<close> matches.
\<close>

definition closes :: "string \<Rightarrow> bool" where
  "closes s \<longleftrightarrow> (\<exists>t r. s = t @ CHR 0x22 # r \<and> (\<forall>c\<in>set t. \<not> isLineTerminator c))"

definition wellFormedAt :: "string \<Rightarrow> bool" where
  \<open>wellFormedAt s \<longleftrightarrow> (\<exists>d u. s = ''W/"'' @ d # u \<and> isDigit d \<and> closes u)\<close>



section \<open>Example data\<close>

text \<open>
  The cart of the scenarios: stream \<^verbatim>\<open>cart-1\<close> of client \<^verbatim>\<open>client-1\<close>, opened at time 100, and
  lines of product \<^verbatim>\<open>P1\<close> at unit price 10. \<open>streamsWith events\<close> is the state of the
  in-memory store in which \<^verbatim>\<open>cart-1\<close> holds \<open>events\<close> and no other stream exists.
\<close>

definition item_P1 :: "int \<Rightarrow> PricedProductItem" where
  "item_P1 q = \<lparr>productId = ''P1'', quantity = q, unitPrice = 10\<rparr>"

definition openedEvent :: ShoppingCartEvent where
  "openedEvent = ShoppingCartOpened ''cart-1'' ''client-1'' 100"

definition cartWith :: "ShoppingCartStatus \<Rightarrow> PricedProductItem list \<Rightarrow> ShoppingCart" where
  "cartWith st items =
     \<lparr>cartId = Some ''cart-1'', clientId = Some ''client-1'', status = Some st,
      openedAt = Some 100, productItems = items, confirmedAt = None, canceledAt = None\<rparr>"

definition streamsWith :: "ShoppingCartEvent list \<Rightarrow> string \<Rightarrow> ShoppingCartEvent list" where
  "streamsWith events = (\<lambda>streamId. [])(''cart-1'' := events)"

text \<open>
  The scenario "open, add two of \<^verbatim>\<open>P1\<close>, confirm at time 200": its events and the cart they
  fold to.
\<close>

definition confirmedEvents :: "ShoppingCartEvent list" where
  "confirmedEvents =
     [openedEvent, ProductItemAddedToShoppingCart (item_P1 2) (Some ''cart-1''),
      ShoppingCartConfirmed (Some ''cart-1'') 200]"

definition confirmedCart :: ShoppingCart where
  "confirmedCart = (cartWith Confirmed [item_P1 2])\<lparr>confirmedAt := Some 200\<rparr>"

section \<open>Properties of the shopping cart aggregate\<close>

lemma findIndex_Some:
  "findIndex P xs = Some i \<Longrightarrow> i < length xs \<and> P (xs ! i) \<and> (\<forall>j<i. \<not> P (xs ! j))"
proof (induction xs arbitrary: i)
  case Nil
  then show ?case by simp
next
  case (Cons x xs)
  show ?case
  proof (cases "P x")
    case True
    with Cons.prems show ?thesis by simp
  next
    case False
    with Cons.prems obtain k where k: "findIndex P xs = Some k" "i = Suc k" by auto
    from Cons.IH [OF k(1)] False k(2) show ?thesis
      by (auto simp: nth_Cons split: nat.splits)
  qed
qed


lemma splice1_update: "splice1 i (xs[i := v]) = splice1 i xs"
  by (simp add: splice1_def)

lemma set_splice1: "set (splice1 i xs) \<subseteq> set xs"
  unfolding splice1_def by (auto dest: in_set_takeD in_set_dropD)

lemma evolve_error: "evolve state e = Inl x \<Longrightarrow> x = UNKNOWN_EVENT_TYPE"
  by (cases e) (auto split: option.splits if_splits simp: Let_def)

lemma reduce_append:
  "reduce f s (xs @ ys) = (case reduce f s xs of Inl x \<Rightarrow> Inl x | Inr s' \<Rightarrow> reduce f s' ys)"
  by (induction xs arbitrary: s) (auto split: sum.splits)

lemma reduce_evolve_error: "reduce evolve state es = Inl x \<Longrightarrow> x = UNKNOWN_EVENT_TYPE"
proof (induction es arbitrary: state)
  case Nil
  then show ?case by simp
next
  case (Cons e es)
  then show ?case by (auto split: sum.splits dest: evolve_error)
qed

lemma reduce_unknown:
  "reduce evolve state (before @ UnknownEvent t # after) = Inl UNKNOWN_EVENT_TYPE"
proof (cases "reduce evolve state before")
  case (Inl x)
  then have "x = UNKNOWN_EVENT_TYPE" by (rule reduce_evolve_error)
  with Inl show ?thesis by (simp add: reduce_append)
next
  case (Inr s')
  then show ?thesis by (simp add: reduce_append)
qed

declare bitLength.simps [simp del]

lemma bitLength_0: "bitLength 0 = 0"
  by (simp add: bitLength.simps [of 0])

lemma bitLength_pos: "0 < n \<Longrightarrow> bitLength n = Suc (bitLength (n div 2))"
  by (subst bitLength.simps) simp

lemmas number_eval = numberAdd_def numberSub_def roundToNumber_def Let_def
  bitLength_0 bitLength_pos

lemma bitLength_bound: "0 < a \<Longrightarrow> 2 ^ (bitLength a - 1) \<le> a"
proof (induction a rule: bitLength.induct)
  case (1 n)
  show ?case
  proof (cases "n div 2 = 0")
    case True
    with 1(2) have "n = 1" by (simp add: div_eq_0_iff)
    then show ?thesis by (simp add: bitLength.simps [of "Suc 0"] bitLength.simps [of 0])
  next
    case False
    with 1 have ih: "2 ^ (bitLength (n div 2) - 1) \<le> n div 2" by simp
    from False have pos: "0 < bitLength (n div 2)" by (subst bitLength.simps) simp
    from 1(2) have "bitLength n = Suc (bitLength (n div 2))" by (subst bitLength.simps) simp
    then have "(2::nat) ^ (bitLength n - 1) = 2 * 2 ^ (bitLength (n div 2) - 1)"
      using pos by (cases "bitLength (n div 2)") simp_all
    also have "\<dots> \<le> 2 * (n div 2)" using ih by simp
    also have "\<dots> \<le> n" by simp
    finally show ?thesis .
  qed
qed

lemma roundToNumber_exact: "\<bar>n\<bar> \<le> 2 ^ 53 \<Longrightarrow> roundToNumber n = n"
  by (simp add: roundToNumber_def)

lemma roundToNumber_pos: "0 < roundToNumber n \<longleftrightarrow> 0 < n"
proof (cases "\<bar>n\<bar> \<le> 2 ^ 53")
  case True
  then show ?thesis by (simp add: roundToNumber_def)
next
  case False
  define a where "a = nat \<bar>n\<bar>"
  define u :: nat where "u = 2 ^ (bitLength a - 53)"
  define q where "q = a div u"
  define m where "m = (if u < 2 * (a mod u) \<or> (2 * (a mod u) = u \<and> odd q) then q + 1 else q)"
  from False have apos: "0 < a" by (simp add: a_def)
  have "u \<le> 2 ^ (bitLength a - 1)" unfolding u_def by (rule power_increasing) simp_all
  also have "\<dots> \<le> a" using apos by (rule bitLength_bound)
  finally have "u \<le> a" .
  moreover have upos: "0 < u" by (simp add: u_def)
  ultimately have "1 \<le> q" unfolding q_def by (simp add: Suc_le_eq div_greater_zero_iff)
  then have "0 < m" by (simp add: m_def)
  with upos have mu: "0 < int (m * u)" by simp
  from False have r: "roundToNumber n = sgn n * int (m * u)"
    by (simp add: roundToNumber_def Let_def a_def u_def q_def m_def)
  show ?thesis
  proof (cases "0 < n")
    case True
    with mu r show ?thesis by simp
  next
    case neg: False
    with False have "n < 0" by auto
    with mu r show ?thesis by simp
  qed
qed

lemma roundToNumber_nonpos: "roundToNumber n \<le> 0 \<longleftrightarrow> n \<le> 0"
  using roundToNumber_pos [of n] by auto

lemma numberAdd_pos: "0 < a \<Longrightarrow> 0 < b \<Longrightarrow> 0 < numberAdd a b"
  by (simp add: numberAdd_def roundToNumber_pos)


lemma numberSub_nonpos: "numberSub a b \<le> 0 \<longleftrightarrow> a \<le> b"
  by (simp add: numberSub_def roundToNumber_nonpos)

lemma positive_update:
  fixes xs :: "PricedProductItem list"
  assumes "\<forall>p\<in>set xs. 0 < quantity p" and "0 < quantity v"
  shows "\<forall>p\<in>set (xs[i := v]). 0 < quantity p"
proof
  fix p
  assume "p \<in> set (xs[i := v])"
  then have "p = v \<or> p \<in> set xs"
    using set_update_subset_insert [of xs i v] by auto
  with assms show "0 < quantity p" by auto
qed

lemma evolve_linesPositive:
  assumes "evolve state e = Inr state'" and "linesPositive state" and "addsPositive e"
  shows "linesPositive state'"
proof (cases e)
  case (ShoppingCartOpened a b c)
  with assms show ?thesis by (auto simp: linesPositive_def)
next
  case (ProductItemAddedToShoppingCart item sid)
  show ?thesis
  proof (cases "findIndex (sameLine item) (productItems state)")
    case None
    with assms ProductItemAddedToShoppingCart show ?thesis by (auto simp: linesPositive_def)
  next
    case (Some i)
    then have i: "i < length (productItems state)" by (auto dest: findIndex_Some)
    with assms(2) have "0 < quantity (productItems state ! i)" by (simp add: linesPositive_def)
    with assms(3) ProductItemAddedToShoppingCart
    have v: "0 < quantity ((productItems state ! i)
        \<lparr>quantity := numberAdd (quantity (productItems state ! i)) (quantity item)\<rparr>)"
      by (simp add: numberAdd_pos)
    from assms(1) ProductItemAddedToShoppingCart Some
    have "productItems state' = (productItems state)[i := (productItems state ! i)
        \<lparr>quantity := numberAdd (quantity (productItems state ! i)) (quantity item)\<rparr>]"
      by auto
    with positive_update [OF _ v, of "productItems state" i] assms(2) show ?thesis
      by (simp add: linesPositive_def)
  qed
next
  case (ProductItemRemovedFromShoppingCart item sid)
  show ?thesis
  proof (cases "findIndex (sameLine item) (productItems state)")
    case None
    with assms ProductItemRemovedFromShoppingCart show ?thesis by auto
  next
    case (Some i)
    show ?thesis
    proof (cases "numberSub (quantity (productItems state ! i)) (quantity item) \<le> 0")
      case True
      with assms(1) ProductItemRemovedFromShoppingCart Some
      have "productItems state' = splice1 i (productItems state)"
        by (auto simp: Let_def splice1_update)
      with assms(2) set_splice1 [of i "productItems state"] show ?thesis
        by (auto simp: linesPositive_def)
    next
      case False
      with assms(1) ProductItemRemovedFromShoppingCart Some
      have "productItems state' = (productItems state)[i := (productItems state ! i)
              \<lparr>quantity := numberSub (quantity (productItems state ! i)) (quantity item)\<rparr>]"
        by (auto simp: Let_def)
      moreover from False have v: "0 < quantity ((productItems state ! i)
              \<lparr>quantity := numberSub (quantity (productItems state ! i)) (quantity item)\<rparr>)"
        by simp
      moreover from assms(2) have "\<forall>p\<in>set (productItems state). 0 < quantity p"
        by (simp add: linesPositive_def)
      from positive_update [OF this v, of i]
      have "\<forall>p\<in>set ((productItems state)[i := (productItems state ! i)
              \<lparr>quantity := numberSub (quantity (productItems state ! i)) (quantity item)\<rparr>]).
            0 < quantity p" .
      ultimately show ?thesis
        by (simp add: linesPositive_def)
    qed
  qed
next
  case (ShoppingCartConfirmed a b)
  with assms show ?thesis by (auto simp: linesPositive_def)
next
  case (ShoppingCartCanceled a b)
  with assms show ?thesis by (auto simp: linesPositive_def)
next
  case (UnknownEvent t)
  with assms show ?thesis by simp
qed

lemma reduce_linesPositive:
  "reduce evolve state es = Inr cart \<Longrightarrow> linesPositive state \<Longrightarrow> list_all addsPositive es
    \<Longrightarrow> linesPositive cart"
proof (induction es arbitrary: state)
  case Nil
  then show ?case by simp
next
  case (Cons e es)
  from Cons.prems(1) obtain s' where s': "evolve state e = Inr s'" "reduce evolve s' es = Inr cart"
    by (auto split: sum.splits)
  from s'(1) Cons.prems(2,3) have "linesPositive s'" by (auto intro: evolve_linesPositive)
  with Cons.IH [OF s'(2)] Cons.prems(3) show ?case by simp
qed

lemmas example_defs = item_P1_def openedEvent_def cartWith_def streamsWith_def
  confirmedEvents_def confirmedCart_def

lemmas repo_defs = cartRepository_def EventStoreRepository_def EventStoreRepository_find_def
  EventStoreRepository_store_def memoryStore_def on_def

lemma currentQuantity_findIndex:
  "currentQuantity cart item =
     (case findIndex (sameLine item) (productItems cart) of
        None \<Rightarrow> 0
      | Some i \<Rightarrow> quantity (productItems cart ! i))"
proof -
  have "\<And>xs. (case List.find (sameLine item) xs of Some p \<Rightarrow> quantity p | None \<Rightarrow> 0)
      = (case findIndex (sameLine item) xs of None \<Rightarrow> 0 | Some i \<Rightarrow> quantity (xs ! i))"
  proof -
    fix xs :: "PricedProductItem list"
    show "(case List.find (sameLine item) xs of Some p \<Rightarrow> quantity p | None \<Rightarrow> 0)
      = (case findIndex (sameLine item) xs of None \<Rightarrow> 0 | Some i \<Rightarrow> quantity (xs ! i))"
      by (induction xs) (auto split: option.splits)
  qed
  then show ?thesis
    by (simp add: currentQuantity_def sameLine_def [abs_def])
qed

subsection \<open>Reading a stream that does not exist\<close>

text \<open>
  Claim C2, as the source has it. When the stream has no events, \<^verbatim>\<open>find\<close> signals nothing: the
  fold returns the initial state it was started from (for the cart \<^verbatim>\<open>ShoppingCart.default()\<close>,
  whose fields are all undefined and whose list of lines is empty). That state is not the
  one of a cart that was opened and is still empty: its status is undefined, while the
  opened event sets the status to pending.
\<close>

theorem find_empty_stream_returns_initial_state:
  assumes "readStream eventStore st entityId = []"
  shows "EventStoreRepository_find eventStore getInitialState evolve_fn entityId st
           = Inr getInitialState
    \<and> find_entity (EventStoreRepository eventStore ShoppingCart_default evolve) entityId st
           = Inr ShoppingCart_default
    \<and> status ShoppingCart_default = None
    \<and> evolve ShoppingCart_default (ShoppingCartOpened shoppingCartId client now)
           = Inr (ShoppingCart_default\<lparr>cartId := Some shoppingCartId, clientId := Some client,
                status := Some Pending, openedAt := Some now\<rparr>)"
  using assms
  by (simp add: EventStoreRepository_find_def EventStoreRepository_def ShoppingCart_default_def)

theorem find_empty_stream_witness:
  "readStream memoryStore (streamsWith [openedEvent]) ''cart-2'' = []
   \<and> find_entity (EventStoreRepository memoryStore ShoppingCart_default evolve) ''cart-2''
        (streamsWith [openedEvent]) = Inr ShoppingCart_default"
proof -
  have h: "readStream memoryStore (streamsWith [openedEvent]) ''cart-2'' = []"
    by (simp add: memoryStore_def streamsWith_def)
  from find_empty_stream_returns_initial_state [OF h, where getInitialState = ShoppingCart_default
      and evolve_fn = evolve and shoppingCartId = "''cart-2''" and client = "''client-1''"
      and now = 100] h
  show ?thesis by simp
qed

text \<open>
  The claim as the specification words it fails: the fold of no events returns the default
  cart, and on a store in which \<^verbatim>\<open>cart-1\<close> was never written \<^verbatim>\<open>find\<close> returns that cart and
  no error.
\<close>

theorem find_missing_stream_is_not_an_error:
  "reduce evolve ShoppingCart_default [] = Inr ShoppingCart_default
   \<and> find_entity cartRepository ''cart-1'' (streamsWith []) = Inr ShoppingCart_default"
  by (simp add: repo_defs example_defs)

subsection \<open>Opening a cart\<close>

text \<open>
  Claim C3, as the source has it. \<^verbatim>\<open>open\<close> checks nothing: on every cart it returns the
  opened event, and whenever the events of the stream fold without an exception the service
  hands exactly that event to \<^verbatim>\<open>store\<close>, whether or not the stream existed before.
\<close>

theorem open_has_no_existence_check:
  assumes "find_entity repository shoppingCartId st = Inr cart"
  shows "open_cart cart shoppingCartId client now = ShoppingCartOpened shoppingCartId client now
    \<and> ShoppingCartService_open repository shoppingCartId client now st
        = (Inr (), store_events repository shoppingCartId
                     [ShoppingCartOpened shoppingCartId client now] st)"
  using assms by (simp add: ShoppingCartService_open_def on_def open_cart_def)

theorem open_has_no_existence_check_witness:
  "find_entity cartRepository ''cart-1'' (streamsWith [openedEvent]) = Inr (cartWith Pending [])
   \<and> ShoppingCartService_open cartRepository ''cart-1'' ''client-1'' 200 (streamsWith [openedEvent])
       = (Inr (), store_events cartRepository ''cart-1''
                    [ShoppingCartOpened ''cart-1'' ''client-1'' 200] (streamsWith [openedEvent]))"
proof -
  have h: "find_entity cartRepository ''cart-1'' (streamsWith [openedEvent])
      = Inr (cartWith Pending [])"
    by (simp add: repo_defs example_defs ShoppingCart_default_def)
  from open_has_no_existence_check [OF h] h show ?thesis by simp
qed

text \<open>
  The claim as the specification words it fails: opening \<^verbatim>\<open>cart-1\<close> a second time succeeds
  and appends a second opened event to its stream.
\<close>

theorem open_on_existing_stream_succeeds:
  "ShoppingCartService_open cartRepository ''cart-1'' ''client-1'' 200 (streamsWith [openedEvent])
     = (Inr (), streamsWith [openedEvent, ShoppingCartOpened ''cart-1'' ''client-1'' 200])"
  by (simp add: ShoppingCartService_open_def open_cart_def repo_defs example_defs
      ShoppingCart_default_def)

subsection \<open>Removing more than the line holds\<close>

text \<open>
  Claim C5. On a pending cart, a removal that asks for more than the quantity of the line
  with the same product and unit price (0 when there is no such line) throws
  \<^verbatim>\<open>PRODUCT_ITEM_NOT_FOUND\<close>: no event is returned, and the service leaves the store as it
  was. When the line holds at least the requested quantity the removal event is returned,
  and the service hands it to \<^verbatim>\<open>store\<close>. The line the check reads is the one the fold
  changes: the first with that product and unit price.
\<close>

theorem remove_rejected_when_quantity_exceeds_line:
  assumes "status cart = Some Pending"
  shows "(currentQuantity cart item < quantity item \<longrightarrow>
            removeProductItem cart item = Inl PRODUCT_ITEM_NOT_FOUND
            \<and> (find_entity repository shoppingCartId st = Inr cart \<longrightarrow>
                 ShoppingCartService_removeProductItem repository shoppingCartId item st
                   = (Inl PRODUCT_ITEM_NOT_FOUND, st)))
    \<and> (quantity item \<le> currentQuantity cart item \<longrightarrow>
            removeProductItem cart item
              = Inr (ProductItemRemovedFromShoppingCart item (cartId cart))
            \<and> (find_entity repository shoppingCartId st = Inr cart \<longrightarrow>
                 ShoppingCartService_removeProductItem repository shoppingCartId item st
                   = (Inr (), store_events repository shoppingCartId
                        [ProductItemRemovedFromShoppingCart item (cartId cart)] st)))
    \<and> currentQuantity cart item =
         (case findIndex (sameLine item) (productItems cart) of
            None \<Rightarrow> 0
          | Some i \<Rightarrow> quantity (productItems cart ! i))"
  using assms currentQuantity_findIndex [of cart item]
  by (simp add: removeProductItem_def assertIsPending_def assertProductItemExists_def
      ShoppingCartService_removeProductItem_def on_def)

theorem remove_rejected_witness:
  "status (cartWith Pending [item_P1 1]) = Some Pending
   \<and> currentQuantity (cartWith Pending [item_P1 1]) (item_P1 2) < quantity (item_P1 2)
   \<and> find_entity cartRepository ''cart-1''
        (streamsWith [openedEvent, ProductItemAddedToShoppingCart (item_P1 1) (Some ''cart-1'')])
       = Inr (cartWith Pending [item_P1 1])
   \<and> ShoppingCartService_removeProductItem cartRepository ''cart-1'' (item_P1 2)
        (streamsWith [openedEvent, ProductItemAddedToShoppingCart (item_P1 1) (Some ''cart-1'')])
       = (Inl PRODUCT_ITEM_NOT_FOUND,
          streamsWith [openedEvent, ProductItemAddedToShoppingCart (item_P1 1) (Some ''cart-1'')])
   \<and> quantity (item_P1 1) \<le> currentQuantity (cartWith Pending [item_P1 1]) (item_P1 1)
   \<and> removeProductItem (cartWith Pending [item_P1 1]) (item_P1 1)
       = Inr (ProductItemRemovedFromShoppingCart (item_P1 1) (Some ''cart-1''))"
proof -
  have p: "status (cartWith Pending [item_P1 1]) = Some Pending"
    by (simp add: cartWith_def)
  have lt: "currentQuantity (cartWith Pending [item_P1 1]) (item_P1 2) < quantity (item_P1 2)"
    by (simp add: currentQuantity_def example_defs)
  have le: "quantity (item_P1 1) \<le> currentQuantity (cartWith Pending [item_P1 1]) (item_P1 1)"
    by (simp add: currentQuantity_def example_defs)
  have f: "find_entity cartRepository ''cart-1''
        (streamsWith [openedEvent, ProductItemAddedToShoppingCart (item_P1 1) (Some ''cart-1'')])
       = Inr (cartWith Pending [item_P1 1])"
    by (simp add: repo_defs example_defs ShoppingCart_default_def sameLine_def)
  from remove_rejected_when_quantity_exceeds_line [OF p, of "item_P1 2" cartRepository "''cart-1''"
      "streamsWith [openedEvent, ProductItemAddedToShoppingCart (item_P1 1) (Some ''cart-1'')]"]
    remove_rejected_when_quantity_exceeds_line [OF p, of "item_P1 1" cartRepository "''cart-1''"
      "streamsWith [openedEvent, ProductItemAddedToShoppingCart (item_P1 1) (Some ''cart-1'')]"]
    p lt le f
  show ?thesis by (simp add: cartWith_def)
qed

subsection \<open>Events of an unknown type\<close>

text \<open>
  Claim C1, as the source has it. \<^verbatim>\<open>ShoppingCart.evolve\<close> throws \<^verbatim>\<open>UNKNOWN_EVENT_TYPE\<close> on an
  event of an unknown type, in every state, and so does the fold of every event sequence
  that holds one, whatever comes before and after it. The fold step of \<^verbatim>\<open>getShoppingCart\<close>
  does not throw: it writes the event to the error console and returns the state it was
  given.
\<close>

theorem unknown_event_throws_in_evolve_and_is_logged_in_getShoppingCart:
  "evolve state (UnknownEvent t) = Inl UNKNOWN_EVENT_TYPE
   \<and> reduce evolve state (before @ UnknownEvent t # after) = Inl UNKNOWN_EVENT_TYPE
   \<and> getShoppingCart_when addItem removeItem currentState (UnknownEvent_crud t')
       = (currentState, [''Unknown event type '' @ t'])"
  by (simp add: reduce_unknown)

text \<open>
  The claim as the specification words it fails for \<^verbatim>\<open>getShoppingCart\<close>: an event of type
  \<^verbatim>\<open>shopping-cart-canceled\<close>, which that fold does not know, leaves an opened cart as it is.
\<close>

theorem getShoppingCart_unknown_event_keeps_state:
  "getShoppingCart_when (\<lambda>items item. items @ [item]) (\<lambda>items item. items)
     \<lparr>id_crud = ''cart-1'', openedAt_crud = Some ''2024-01-01T00:00:00.000Z'',
      productItems_crud = [item_P1 2], status_crud = Opened\<rparr>
     (UnknownEvent_crud ''shopping-cart-canceled'' :: (PricedProductItem, unit) ShoppingCartEvent_crud)
   = (\<lparr>id_crud = ''cart-1'', openedAt_crud = Some ''2024-01-01T00:00:00.000Z'',
       productItems_crud = [item_P1 2], status_crud = Opened\<rparr>,
      [''Unknown event type shopping-cart-canceled''])"
  by simp

subsection \<open>Quantities of the lines\<close>

text \<open>
  Claim C6, as the source has it. When every addition in the event sequence carries a
  strictly positive quantity, every line of the folded cart has a strictly positive
  quantity. A removal of a line that is absent leaves the state as it is; a removal that
  brings the quantity of its line to zero or below deletes that line and nothing else; any
  other removal leaves the line in place with the difference, which is positive, as its
  quantity (the exact difference whenever that is at most \<open>2\<^sup>5\<^sup>3\<close> in magnitude).
\<close>

theorem fold_keeps_quantities_positive:
  "(reduce evolve ShoppingCart_default events = Inr cart \<and> list_all addsPositive events
      \<longrightarrow> linesPositive cart)
   \<and> (findIndex (sameLine item) (productItems state) = None
      \<longrightarrow> evolve state (ProductItemRemovedFromShoppingCart item sid) = Inr state)
   \<and> (findIndex (sameLine item) (productItems state) = Some i
        \<and> quantity (productItems state ! i) \<le> quantity item
      \<longrightarrow> evolve state (ProductItemRemovedFromShoppingCart item sid)
            = Inr (state\<lparr>productItems := splice1 i (productItems state)\<rparr>))
   \<and> (findIndex (sameLine item) (productItems state) = Some i
        \<and> quantity item < quantity (productItems state ! i)
      \<longrightarrow> evolve state (ProductItemRemovedFromShoppingCart item sid)
            = Inr (state\<lparr>productItems := (productItems state)[i := (productItems state ! i)
                 \<lparr>quantity := numberSub (quantity (productItems state ! i)) (quantity item)\<rparr>]\<rparr>)
          \<and> 0 < numberSub (quantity (productItems state ! i)) (quantity item)
          \<and> (\<bar>quantity (productItems state ! i) - quantity item\<bar> \<le> 2 ^ 53
               \<longrightarrow> numberSub (quantity (productItems state ! i)) (quantity item)
                     = quantity (productItems state ! i) - quantity item))"
proof -
  have "linesPositive ShoppingCart_default"
    by (simp add: linesPositive_def ShoppingCart_default_def)
  then have "reduce evolve ShoppingCart_default events = Inr cart \<and> list_all addsPositive events
      \<longrightarrow> linesPositive cart"
    using reduce_linesPositive by blast
  moreover have "\<bar>quantity (productItems state ! i) - quantity item\<bar> \<le> 2 ^ 53
      \<longrightarrow> numberSub (quantity (productItems state ! i)) (quantity item)
            = quantity (productItems state ! i) - quantity item"
    by (simp add: numberSub_def roundToNumber_exact)
  moreover have "quantity item < quantity (productItems state ! i)
      \<longrightarrow> 0 < numberSub (quantity (productItems state ! i)) (quantity item)"
    using numberSub_nonpos [of "quantity (productItems state ! i)" "quantity item"] by auto
  ultimately show ?thesis
    by (simp add: Let_def splice1_update numberSub_nonpos not_le)
qed

theorem fold_keeps_quantities_positive_witness:
  "reduce evolve ShoppingCart_default
      [openedEvent, ProductItemAddedToShoppingCart (item_P1 2) (Some ''cart-1''),
       ProductItemRemovedFromShoppingCart (item_P1 1) (Some ''cart-1'')]
     = Inr (cartWith Pending [item_P1 1])
   \<and> list_all addsPositive
      [openedEvent, ProductItemAddedToShoppingCart (item_P1 2) (Some ''cart-1''),
       ProductItemRemovedFromShoppingCart (item_P1 1) (Some ''cart-1'')]
   \<and> linesPositive (cartWith Pending [item_P1 1])
   \<and> findIndex (sameLine (item_P1 1)) (productItems (cartWith Pending [])) = None
   \<and> evolve (cartWith Pending []) (ProductItemRemovedFromShoppingCart (item_P1 1) (Some ''cart-1''))
       = Inr (cartWith Pending [])
   \<and> findIndex (sameLine (item_P1 3)) (productItems (cartWith Pending [item_P1 2])) = Some 0
   \<and> evolve (cartWith Pending [item_P1 2])
        (ProductItemRemovedFromShoppingCart (item_P1 3) (Some ''cart-1''))
       = Inr (cartWith Pending [])"
proof -
  let ?es = "[openedEvent, ProductItemAddedToShoppingCart (item_P1 2) (Some ''cart-1''),
       ProductItemRemovedFromShoppingCart (item_P1 1) (Some ''cart-1'')]"
  have r: "reduce evolve ShoppingCart_default ?es = Inr (cartWith Pending [item_P1 1])"
    by (simp add: example_defs ShoppingCart_default_def sameLine_def number_eval)
  have a: "list_all addsPositive ?es"
    by (simp add: example_defs)
  have n: "findIndex (sameLine (item_P1 1)) (productItems (cartWith Pending [])) = None"
    by (simp add: example_defs)
  have s: "findIndex (sameLine (item_P1 3)) (productItems (cartWith Pending [item_P1 2])) = Some 0"
    by (simp add: example_defs sameLine_def)
  have q: "quantity (productItems (cartWith Pending [item_P1 2]) ! 0) \<le> quantity (item_P1 3)"
    by (simp add: example_defs)
  from fold_keeps_quantities_positive [of ?es "cartWith Pending [item_P1 1]" "item_P1 1"
      "cartWith Pending []" "Some ''cart-1''" 0]
    fold_keeps_quantities_positive [of ?es "cartWith Pending [item_P1 1]" "item_P1 3"
      "cartWith Pending [item_P1 2]" "Some ''cart-1''" 0]
    r a n s q
  show ?thesis by (simp add: cartWith_def splice1_def)
qed

text \<open>
  The claim as the specification words it, for every event sequence, fails: \<^verbatim>\<open>addProductItem\<close>
  accepts a quantity of \<open>-1\<close>, and the fold of the event it returns keeps a line of
  quantity \<open>-1\<close>.
\<close>

theorem added_negative_quantity_stays_in_snapshot:
  "addProductItem (cartWith Pending []) (item_P1 (- 1))
     = Inr (ProductItemAddedToShoppingCart (item_P1 (- 1)) (Some ''cart-1''))
   \<and> reduce evolve ShoppingCart_default
       [openedEvent, ProductItemAddedToShoppingCart (item_P1 (- 1)) (Some ''cart-1'')]
     = Inr (cartWith Pending [item_P1 (- 1)])
   \<and> quantity (item_P1 (- 1)) < 0"
  by (simp add: addProductItem_def assertIsPending_def example_defs ShoppingCart_default_def)

subsection \<open>Adding a product item\<close>





subsection \<open>Carts that are no longer pending\<close>

lemmas service_defs = ShoppingCartService_addProductItem_def
  ShoppingCartService_removeProductItem_def ShoppingCartService_confirm_def
  ShoppingCartService_cancel_def

text \<open>
  Claim C8, as the source has it. On a cart whose status is confirmed or canceled, adding,
  removing, confirming and canceling all throw \<^verbatim>\<open>CART_IS_ALREADY_CLOSED\<close>; the service then
  stores nothing, so the stream, and with it the status, is what it was. Confirming and
  canceling return their event from a pending cart only. (The fold itself checks no
  status: it applies whatever event the stream holds.)
\<close>

theorem closed_cart_rejects_commands:
  assumes "status cart = Some Confirmed \<or> status cart = Some Canceled"
  shows "addProductItem cart item = Inl CART_IS_ALREADY_CLOSED
    \<and> removeProductItem cart item = Inl CART_IS_ALREADY_CLOSED
    \<and> confirm cart now = Inl CART_IS_ALREADY_CLOSED
    \<and> cancel cart now = Inl CART_IS_ALREADY_CLOSED
    \<and> (find_entity repository shoppingCartId st = Inr cart \<longrightarrow>
          ShoppingCartService_addProductItem repository shoppingCartId item st
            = (Inl CART_IS_ALREADY_CLOSED, st)
        \<and> ShoppingCartService_removeProductItem repository shoppingCartId item st
            = (Inl CART_IS_ALREADY_CLOSED, st)
        \<and> ShoppingCartService_confirm repository shoppingCartId now st
            = (Inl CART_IS_ALREADY_CLOSED, st)
        \<and> ShoppingCartService_cancel repository shoppingCartId now st
            = (Inl CART_IS_ALREADY_CLOSED, st))
    \<and> (confirm other now = Inr e \<longrightarrow> status other = Some Pending)
    \<and> (cancel other now = Inr e \<longrightarrow> status other = Some Pending)"
proof -
  from assms have p: "assertIsPending cart = Inl CART_IS_ALREADY_CLOSED"
    by (auto simp: assertIsPending_def)
  have c: "confirm other now = Inr e \<longrightarrow> status other = Some Pending"
    by (auto simp: confirm_def assertIsPending_def split: if_splits)
  have d: "cancel other now = Inr e \<longrightarrow> status other = Some Pending"
    by (auto simp: cancel_def assertIsPending_def split: if_splits)
  from p c d show ?thesis
    by (simp add: addProductItem_def removeProductItem_def confirm_def cancel_def
        service_defs on_def)
qed

theorem closed_cart_rejects_commands_witness:
  "status confirmedCart = Some Confirmed
   \<and> find_entity cartRepository ''cart-1'' (streamsWith confirmedEvents) = Inr confirmedCart
   \<and> ShoppingCartService_addProductItem cartRepository ''cart-1'' (item_P1 1)
        (streamsWith confirmedEvents) = (Inl CART_IS_ALREADY_CLOSED, streamsWith confirmedEvents)
   \<and> ShoppingCartService_removeProductItem cartRepository ''cart-1'' (item_P1 1)
        (streamsWith confirmedEvents) = (Inl CART_IS_ALREADY_CLOSED, streamsWith confirmedEvents)
   \<and> ShoppingCartService_confirm cartRepository ''cart-1'' 300
        (streamsWith confirmedEvents) = (Inl CART_IS_ALREADY_CLOSED, streamsWith confirmedEvents)
   \<and> ShoppingCartService_cancel cartRepository ''cart-1'' 300
        (streamsWith confirmedEvents) = (Inl CART_IS_ALREADY_CLOSED, streamsWith confirmedEvents)
   \<and> confirm (cartWith Pending [item_P1 2]) 300 = Inr (ShoppingCartConfirmed (Some ''cart-1'') 300)
   \<and> status (cartWith Pending [item_P1 2]) = Some Pending"
proof -
  have h: "status confirmedCart = Some Confirmed \<or> status confirmedCart = Some Canceled"
    by (simp add: example_defs)
  have f: "find_entity cartRepository ''cart-1'' (streamsWith confirmedEvents) = Inr confirmedCart"
    by (simp add: repo_defs example_defs ShoppingCart_default_def)
  have k: "confirm (cartWith Pending [item_P1 2]) 300
      = Inr (ShoppingCartConfirmed (Some ''cart-1'') 300)"
    by (simp add: confirm_def assertIsPending_def assertIsNotEmpty_def cartWith_def)
  from closed_cart_rejects_commands [OF h, of "item_P1 1" 300 cartRepository "''cart-1''"
      "streamsWith confirmedEvents" "cartWith Pending [item_P1 2]"
      "ShoppingCartConfirmed (Some ''cart-1'') 300"] f k
  show ?thesis by (simp add: example_defs)
qed

text \<open>
  The claim as the specification words it fails where it says that a terminal status never
  changes under the fold: a canceled event folded after a confirmed event makes the cart
  canceled, and \<^verbatim>\<open>open\<close>, which checks nothing, appends an opened event to the stream of a
  confirmed cart, after which the cart folds to pending with no lines.
\<close>

theorem fold_changes_terminal_status:
  "reduce evolve ShoppingCart_default confirmedEvents = Inr confirmedCart
   \<and> status confirmedCart = Some Confirmed
   \<and> reduce evolve ShoppingCart_default
        (confirmedEvents @ [ShoppingCartCanceled (Some ''cart-1'') 300])
     = Inr ((cartWith Canceled [item_P1 2])\<lparr>confirmedAt := Some 200, canceledAt := Some 300\<rparr>)
   \<and> ShoppingCartService_open cartRepository ''cart-1'' ''client-1'' 400
        (streamsWith confirmedEvents)
     = (Inr (), streamsWith (confirmedEvents @ [ShoppingCartOpened ''cart-1'' ''client-1'' 400]))
   \<and> reduce evolve ShoppingCart_default
        (confirmedEvents @ [ShoppingCartOpened ''cart-1'' ''client-1'' 400])
     = Inr ((cartWith Pending [])\<lparr>openedAt := Some 400, confirmedAt := Some 200\<rparr>)"
  by (simp add: ShoppingCartService_open_def open_cart_def repo_defs example_defs
      ShoppingCart_default_def)

subsection \<open>Storing no events\<close>

text \<open>
  Claim C9. For every event store, every entity id and every state of the store, \<^verbatim>\<open>store\<close>
  with no events returns the state of the store as it is: \<^verbatim>\<open>appendToStream\<close> is not called
  (a store that records every call of \<^verbatim>\<open>appendToStream\<close> records none). With at least one
  event, \<^verbatim>\<open>store\<close> is one call of \<^verbatim>\<open>appendToStream\<close> with the id and all the events.
\<close>

theorem store_of_no_events_is_noop:
  "EventStoreRepository_store eventStore entityId [] st = st
   \<and> store_events (EventStoreRepository eventStore getInitialState evolve_fn) entityId [] st = st
   \<and> EventStoreRepository_store eventStore entityId (e # es) st
       = appendToStream eventStore entityId (e # es) st
   \<and> EventStoreRepository_store
        \<lparr>readStream = (\<lambda>calls streamId. []),
         appendToStream = (\<lambda>streamId events calls. calls @ [(streamId, events)])\<rparr>
        entityId [] calls = calls"
  by (simp add: EventStoreRepository_store_def EventStoreRepository_def)

section \<open>Properties of the weak ETag functions\<close>


lemma quote_not_digit: "\<not> isDigit (CHR 0x22)"
  by (simp add: isDigit_def)

lemma digit_not_terminator: "isDigit c \<Longrightarrow> \<not> isLineTerminator c"
  by (auto simp: isDigit_def isLineTerminator_def)

lemma quote_not_terminator: "\<not> isLineTerminator (CHR 0x22)"
  by (simp add: isLineTerminator_def)

lemma closes_Nil: "\<not> closes []"
  by (simp add: closes_def)

lemma closes_Cons:
  "closes (x # xs) \<longleftrightarrow> x = CHR 0x22 \<or> (\<not> isLineTerminator x \<and> closes xs)"
proof
  assume "closes (x # xs)"
  then obtain t r where *: "x # xs = t @ CHR 0x22 # r" "\<forall>c\<in>set t. \<not> isLineTerminator c"
    by (auto simp: closes_def)
  show "x = CHR 0x22 \<or> (\<not> isLineTerminator x \<and> closes xs)"
  proof (cases t)
    case Nil
    with * show ?thesis by simp
  next
    case (Cons y ys)
    with * have "\<not> isLineTerminator x" "xs = ys @ CHR 0x22 # r" "\<forall>c\<in>set ys. \<not> isLineTerminator c"
      by auto
    then show ?thesis by (auto simp: closes_def)
  qed
next
  assume "x = CHR 0x22 \<or> (\<not> isLineTerminator x \<and> closes xs)"
  then show "closes (x # xs)"
  proof
    assume "x = CHR 0x22"
    then have "x # xs = [] @ CHR 0x22 # xs" by simp
    then show ?thesis unfolding closes_def by fastforce
  next
    assume a: "\<not> isLineTerminator x \<and> closes xs"
    then obtain t r where "xs = t @ CHR 0x22 # r" "\<forall>c\<in>set t. \<not> isLineTerminator c"
      by (auto simp: closes_def)
    with a have "x # xs = (x # t) @ CHR 0x22 # r \<and> (\<forall>c\<in>set (x # t). \<not> isLineTerminator c)"
      by simp
    then show ?thesis unfolding closes_def by blast
  qed
qed

lemma match_dot_quote:
  "matchAtoms [(Dot, ZeroOrMore), (Lit (CHR 0x22), Once)] s \<noteq> None \<longleftrightarrow> closes s"
  by (induction s) (auto simp: closes_Nil closes_Cons quote_not_terminator split: option.splits)

lemma match_digits_dot_quote:
  "matchAtoms [(Digit, ZeroOrMore), (Dot, ZeroOrMore), (Lit (CHR 0x22), Once)] s \<noteq> None
    \<longleftrightarrow> closes s"
proof (induction s)
  case Nil
  then show ?case by (simp add: closes_Nil)
next
  case (Cons x xs)
  show ?case
  proof (cases "isDigit x")
    case True
    then have nt: "\<not> isLineTerminator x" by (rule digit_not_terminator)
    have dq: "matchAtoms [(Dot, ZeroOrMore), (Lit (CHR 0x22), Once)] (x # xs) \<noteq> None \<longleftrightarrow> closes (x # xs)"
      by (rule match_dot_quote)
    from True Cons dq nt show ?thesis
      by (auto simp: closes_Cons [of x xs] split: option.splits simp del: matchAtoms.simps(7) 
          simp add: matchAtoms.simps(7) [of Digit])
  next
    case False
    have dq: "matchAtoms [(Dot, ZeroOrMore), (Lit (CHR 0x22), Once)] (x # xs) \<noteq> None \<longleftrightarrow> closes (x # xs)"
      by (rule match_dot_quote)
    from False dq show ?thesis
      by (auto simp del: matchAtoms.simps(7) simp add: matchAtoms.simps(7) [of Digit])
  qed
qed


lemma match_plus:
  "matchAtoms [(Digit, OneOrMore), (Dot, ZeroOrMore), (Lit (CHR 0x22), Once)] s \<noteq> None
    \<longleftrightarrow> (\<exists>d u. s = d # u \<and> isDigit d \<and> closes u)"
proof (cases s)
  case Nil
  then show ?thesis by simp
next
  case (Cons x xs)
  have "matchAtoms [(Digit, ZeroOrMore), (Dot, ZeroOrMore), (Lit (CHR 0x22), Once)] xs \<noteq> None
    \<longleftrightarrow> closes xs"
    by (rule match_digits_dot_quote)
  with Cons show ?thesis by auto
qed

lemma match_regex:
  "matchAtoms (atoms WeakETagRegex) s \<noteq> None \<longleftrightarrow> wellFormedAt s"
proof -
  have plus: "\<And>v. matchAtoms [(Digit, OneOrMore), (Dot, ZeroOrMore), (Lit (CHR 0x22), Once)] v \<noteq> None
    \<longleftrightarrow> (\<exists>d u. v = d # u \<and> isDigit d \<and> closes u)"
    by (rule match_plus)
  show ?thesis
  proof (cases s)
    case Nil
    then show ?thesis by (simp add: WeakETagRegex_def wellFormedAt_def)
  next
    case c1: (Cons a s1)
    show ?thesis
    proof (cases s1)
      case Nil
      with c1 show ?thesis by (simp add: WeakETagRegex_def wellFormedAt_def)
    next
      case c2: (Cons b s2)
      show ?thesis
      proof (cases s2)
        case Nil
        with c1 c2 show ?thesis by (simp add: WeakETagRegex_def wellFormedAt_def)
      next
        case c3: (Cons c s3)
        from plus [of s3] c1 c2 c3 show ?thesis
          by (simp add: WeakETagRegex_def wellFormedAt_def del: matchAtoms.simps(5))
      qed
    qed
  qed
qed

lemma execFrom_None:
  "execFrom as s = None \<longleftrightarrow> (\<forall>p u. s = p @ u \<longrightarrow> matchAtoms as u = None)"
proof (induction s)
  case Nil
  then show ?case by simp
next
  case (Cons x xs)
  show ?case
  proof
    assume l: "execFrom as (x # xs) = None"
    then have m: "matchAtoms as (x # xs) = None" and e: "execFrom as xs = None"
      by (auto split: option.splits)
    show "\<forall>p u. x # xs = p @ u \<longrightarrow> matchAtoms as u = None"
    proof (intro allI impI)
      fix p u
      assume pu: "x # xs = p @ u"
      show "matchAtoms as u = None"
      proof (cases p)
        case Nil
        with pu m show ?thesis by simp
      next
        case (Cons y ys)
        with pu have "xs = ys @ u" by simp
        with e Cons.IH show ?thesis by blast
      qed
    qed
  next
    assume r: "\<forall>p u. x # xs = p @ u \<longrightarrow> matchAtoms as u = None"
    then have m: "matchAtoms as (x # xs) = None" by (metis append_Nil)
    have "\<forall>p u. xs = p @ u \<longrightarrow> matchAtoms as u = None"
    proof (intro allI impI)
      fix p u
      assume "xs = p @ u"
      then have "x # xs = (x # p) @ u" by simp
      with r show "matchAtoms as u = None" by blast
    qed
    with Cons.IH have "execFrom as xs = None" by simp
    with m show "execFrom as (x # xs) = None" by simp
  qed
qed

lemma getWeakETagValue_error_iff:
  "getWeakETagValue s = Inl WRONG_WEAK_ETAG_FORMAT \<longleftrightarrow> (\<forall>p u. s = p @ u \<longrightarrow> \<not> wellFormedAt u)"
proof -
  have "getWeakETagValue s = Inl WRONG_WEAK_ETAG_FORMAT \<longleftrightarrow> execFrom (atoms WeakETagRegex) s = None"
    by (auto simp: getWeakETagValue_def RegExp_exec_def split: option.splits)
  then show ?thesis
    by (simp add: execFrom_None match_regex [symmetric])
qed

lemma match_dot_quote_value:
  "\<forall>c\<in>set t. \<not> isLineTerminator c \<and> c \<noteq> CHR 0x22 \<Longrightarrow>
   matchAtoms [(Dot, ZeroOrMore), (Lit (CHR 0x22), Once)] (t @ [CHR 0x22]) = Some [length t, 1]"
  by (induction t) (simp_all add: quote_not_terminator)

lemma match_digits_value:
  "\<forall>c\<in>set t. \<not> isLineTerminator c \<and> c \<noteq> CHR 0x22 \<Longrightarrow>
   \<exists>n m. matchAtoms [(Digit, ZeroOrMore), (Dot, ZeroOrMore), (Lit (CHR 0x22), Once)]
            (t @ [CHR 0x22]) = Some [n, m, 1] \<and> n + m = length t"
proof (induction t)
  case Nil
  then show ?case by (simp add: quote_not_digit quote_not_terminator)
next
  case (Cons x t)
  then obtain n m where
    ih: "matchAtoms [(Digit, ZeroOrMore), (Dot, ZeroOrMore), (Lit (CHR 0x22), Once)]
            (t @ [CHR 0x22]) = Some [n, m, 1]" "n + m = length t"
    by auto
  have dq: "matchAtoms [(Dot, ZeroOrMore), (Lit (CHR 0x22), Once)] ((x # t) @ [CHR 0x22])
      = Some [length (x # t), 1]"
    using Cons.prems by (rule match_dot_quote_value)
  show ?case
  proof (cases "isDigit x")
    case True
    with ih show ?thesis by simp
  next
    case False
    with dq show ?thesis by (simp del: matchAtoms.simps(7) add: matchAtoms.simps(7) [of Digit])
  qed
qed

lemma match_regex_value:
  assumes "isDigit d" and "\<forall>c\<in>set t. \<not> isLineTerminator c \<and> c \<noteq> CHR 0x22"
  shows "\<exists>n m. matchAtoms (atoms WeakETagRegex) (CHR ''W'' # CHR ''/'' # CHR 0x22 # d # t @ [CHR 0x22])
           = Some [1, 1, 1, Suc n, m, 1] \<and> n + m = length t"
proof -
  obtain n m where
    nm: "matchAtoms [(Digit, ZeroOrMore), (Dot, ZeroOrMore), (Lit (CHR 0x22), Once)]
            (t @ [CHR 0x22]) = Some [n, m, 1]" "n + m = length t"
    using match_digits_value [OF assms(2)] by auto
  have "matchAtoms [(Digit, OneOrMore), (Dot, ZeroOrMore), (Lit (CHR 0x22), Once)]
            (d # t @ [CHR 0x22]) = Some [Suc n, m, 1]"
    using assms(1) nm(1) by (simp only: matchAtoms.simps classMatches.simps if_True option.map longer.simps)
  then have "matchAtoms (atoms WeakETagRegex) (CHR ''W'' # CHR ''/'' # CHR 0x22 # d # t @ [CHR 0x22])
           = Some [1, 1, 1, Suc n, m, 1]"
    by (simp add: WeakETagRegex_def del: matchAtoms.simps(5))
  with nm(2) show ?thesis by simp
qed

lemma getWeakETagValue_simple:
  assumes "isDigit d" and "\<forall>c\<in>set t. \<not> isLineTerminator c \<and> c \<noteq> CHR 0x22"
  shows \<open>getWeakETagValue (''W/"'' @ d # t @ ''"'') = Inr (d # t)\<close>
proof -
  obtain n m where
    nm: "matchAtoms (atoms WeakETagRegex) (CHR ''W'' # CHR ''/'' # CHR 0x22 # d # t @ [CHR 0x22])
           = Some [1, 1, 1, Suc n, m, 1]" "n + m = length t"
    using match_regex_value [OF assms] by auto
  then have "RegExp_exec WeakETagRegex (CHR ''W'' # CHR ''/'' # CHR 0x22 # d # t @ [CHR 0x22])
      = Some [CHR ''W'' # CHR ''/'' # CHR 0x22 # d # t @ [CHR 0x22], d # t]"
    by (simp add: RegExp_exec_def capture_def WeakETagRegex_def del: matchAtoms.simps)
  then show ?thesis by (simp add: getWeakETagValue_def)
qed


lemmas etag_defs = getWeakETagValue_def RegExp_exec_def capture_def WeakETagRegex_def
  isDigit_def isLineTerminator_def





subsection \<open>Encoding a revision and decoding it\<close>





subsection \<open>Tokens with trailing characters\<close>

text \<open>
  Claim C10, as the source has it. \<^verbatim>\<open>getWeakETagValue\<close> of \<^verbatim>\<open>W/"\<close>, a digit, any characters
  that are neither a double quote nor a line terminator, and \<^verbatim>\<open>"\<close> succeeds and returns the
  digit and the characters after it. The only error it raises is
  \<^verbatim>\<open>WRONG_WEAK_ETAG_FORMAT\<close>, and it raises it exactly when the input has no place where
  \<^verbatim>\<open>W/"\<close> is followed by a digit and, later and before any line terminator, by a closing
  double quote.
\<close>

theorem decode_accepts_trailing_characters:
  \<open>(isDigit d \<and> (\<forall>c\<in>set t. \<not> isLineTerminator c \<and> c \<noteq> CHR 0x22)
      \<longrightarrow> getWeakETagValue (''W/"'' @ d # t @ ''"'') = Inr (d # t))
   \<and> (getWeakETagValue s = Inl WRONG_WEAK_ETAG_FORMAT
      \<longleftrightarrow> \<not> (\<exists>p d t q. s = p @ ''W/"'' @ d # t @ ''"'' @ q \<and> isDigit d
                \<and> (\<forall>c\<in>set t. \<not> isLineTerminator c)))
   \<and> (\<forall>e. getWeakETagValue s = Inl e \<longrightarrow> e = WRONG_WEAK_ETAG_FORMAT)\<close>
proof -
  have a: \<open>isDigit d \<and> (\<forall>c\<in>set t. \<not> isLineTerminator c \<and> c \<noteq> CHR 0x22)
      \<longrightarrow> getWeakETagValue (''W/"'' @ d # t @ ''"'') = Inr (d # t)\<close>
    using getWeakETagValue_simple by simp
  have w: \<open>(\<exists>p u. s = p @ u \<and> wellFormedAt u)
      \<longleftrightarrow> (\<exists>p d t q. s = p @ ''W/"'' @ d # t @ ''"'' @ q \<and> isDigit d
                \<and> (\<forall>c\<in>set t. \<not> isLineTerminator c))\<close>
  proof
    assume "\<exists>p u. s = p @ u \<and> wellFormedAt u"
    then obtain p u where pu: "s = p @ u" "wellFormedAt u" by auto
    then obtain d v where dv: \<open>u = ''W/"'' @ d # v\<close> "isDigit d" "closes v"
      unfolding wellFormedAt_def by auto
    then obtain t q where tq: "v = t @ CHR 0x22 # q" "\<forall>c\<in>set t. \<not> isLineTerminator c"
      unfolding closes_def by auto
    from pu(1) dv(1) tq(1) have \<open>s = p @ ''W/"'' @ d # t @ ''"'' @ q\<close> by simp
    with dv(2) tq(2) show \<open>\<exists>p d t q. s = p @ ''W/"'' @ d # t @ ''"'' @ q \<and> isDigit d
                \<and> (\<forall>c\<in>set t. \<not> isLineTerminator c)\<close>
      by (intro exI conjI)
  next
    assume \<open>\<exists>p d t q. s = p @ ''W/"'' @ d # t @ ''"'' @ q \<and> isDigit d
                \<and> (\<forall>c\<in>set t. \<not> isLineTerminator c)\<close>
    then obtain p d t q where *: \<open>s = p @ ''W/"'' @ d # t @ ''"'' @ q\<close> "isDigit d"
        "\<forall>c\<in>set t. \<not> isLineTerminator c"
      by auto
    from *(3) have "closes (t @ CHR 0x22 # q)" unfolding closes_def by (intro exI conjI) simp_all
    with *(2) have \<open>wellFormedAt (''W/"'' @ d # t @ ''"'' @ q)\<close>
      unfolding wellFormedAt_def by (intro exI [of _ d] exI [of _ "t @ CHR 0x22 # q"]) simp
    with *(1) show "\<exists>p u. s = p @ u \<and> wellFormedAt u" by (intro exI conjI)
  qed
  have b: \<open>getWeakETagValue s = Inl WRONG_WEAK_ETAG_FORMAT
      \<longleftrightarrow> \<not> (\<exists>p d t q. s = p @ ''W/"'' @ d # t @ ''"'' @ q \<and> isDigit d
                \<and> (\<forall>c\<in>set t. \<not> isLineTerminator c))\<close>
    unfolding w [symmetric] by (simp add: getWeakETagValue_error_iff)
  have c: "\<forall>e. getWeakETagValue s = Inl e \<longrightarrow> e = WRONG_WEAK_ETAG_FORMAT"
    by (auto simp: getWeakETagValue_def split: option.splits if_splits)
  from a b c show ?thesis by simp
qed

theorem decode_accepts_trailing_characters_witness:
  \<open>isDigit CHR ''5''
   \<and> list_all (\<lambda>c. \<not> isLineTerminator c \<and> c \<noteq> CHR 0x22) ''abc''
   \<and> getWeakETagValue ''W/"5abc"'' = Inr ''5abc''
   \<and> getWeakETagValue ''W/"5abc"'' \<noteq> Inl WRONG_WEAK_ETAG_FORMAT\<close>
proof -
  have h: \<open>isDigit CHR ''5'' \<and> (\<forall>c\<in>set ''abc''. \<not> isLineTerminator c \<and> c \<noteq> CHR 0x22)\<close>
    by (simp add: isDigit_def isLineTerminator_def)
  from decode_accepts_trailing_characters [of "CHR ''5''" "''abc''" "''plain''"] h
  show ?thesis by simp
qed

text \<open>
  The claim as it is worded fails in its last part, that the error is raised only when no
  digit follows \<^verbatim>\<open>W/"\<close> anywhere in the input: in \<^verbatim>\<open>W/"5\<close> the digit 5 follows \<^verbatim>\<open>W/"\<close>, and
  the token is rejected, because the closing quote is missing.
\<close>

theorem unclosed_token_is_rejected:
  \<open>getWeakETagValue (''W/"'' @ CHR ''5'' # []) = Inl WRONG_WEAK_ETAG_FORMAT
   \<and> isDigit CHR ''5''
   \<and> getWeakETagValue ''W/"5abc"'' = Inr ''5abc''\<close>
  by (simp add: etag_defs)

end
